theory Spec2Isabelle
  imports Main "HOL-Library.Word"
begin

section \<open>rand.c: seeding the OpenSSL generator, drawing bytes, saving the seed\<close>

text \<open>
  The program is embedded for an LP64 Linux target: \<open>int\<close> is a 32-bit word, \<open>long\<close>,
  \<open>size_t\<close> and \<open>off_t\<close> are 64-bit words, \<open>unsigned char\<close> is an 8-bit word.
  Everything the program asks of the operating system and of OpenSSL is answered by a
  \<open>world\<close> record; everything the program does to the outside (deleting a file, writing
  to a stream, calling into OpenSSL) is an event of the trace it returns, in program order.
\<close>

subsection \<open>Constants\<close>

definition SEED_FILE :: string where
  "SEED_FILE = ''/var/lib/rand/rand.seed''"

definition ENTROPY_SOURCE :: string where
  "ENTROPY_SOURCE = ''/dev/random''"

definition ENTROPY_SIZE :: "32 word" where
  "ENTROPY_SIZE = 32"

definition MAX_BYTES :: nat where
  "MAX_BYTES = 1024"

definition EXIT_SUCCESS :: int where
  "EXIT_SUCCESS = 0"

definition EXIT_FAILURE :: int where
  "EXIT_FAILURE = 1"

subsection \<open>Data\<close>

text \<open>\<open>args_t\<close>, and its zero initialiser \<open>args = { 0, }\<close>.\<close>

record args_t =
  hex :: bool
  verbose :: bool
  bytes :: "64 word"

definition args0 :: args_t where
  "args0 = \<lparr>hex = False, verbose = False, bytes = 0\<rparr>"

text \<open>What the program reads of \<open>struct stat\<close>: \<open>S_ISREG (st_mode)\<close> and \<open>st_size\<close>.\<close>

record stat =
  st_isreg :: bool
  st_size :: "64 word"

datatype opendir_result = Dir_opened | Dir_ENOENT | Dir_other_errno

text \<open>
  An argument of a \<open>printf\<close> format, left unformatted; \<open>Err_reason\<close> is the string
  \<open>ERR_reason_error_string (ERR_get_error ())\<close>, \<open>Null\<close> a null pointer.
\<close>

datatype arg = S string | D int | C int | Null | Err_reason

datatype event =
    Fprintf_stderr string "arg list"
  | Perror string
  | Unlink string
  | Call_RAND_load_file string "64 word"
  | Call_RAND_bytes "64 word"
  | Call_RAND_write_file string
  | Mkdir string
  | Closedir
  | Stdout "8 word list"

text \<open>
  The answers of the environment. \<open>unlink_ok k\<close> is whether the call of \<open>unlink\<close> made
  after \<open>k\<close> earlier ones succeeds. \<open>getopt_returns\<close> are the values \<open>getopt_long\<close>
  returns before it returns -1, and \<open>getopt_optind\<close> is \<open>optind\<close> at that moment.
  \<open>getopt_long\<close> reorders the vector it scans, options first: \<open>getopt_argv w argv\<close> is
  the vector \<open>argv\<close> as \<open>getopt_long\<close> has left it at that moment, and this is the
  vector that line 200 reads.
  \<open>RAND_bytes_ok\<close> is whether \<open>RAND_bytes\<close> returns 1, and \<open>RAND_stream i\<close> is the byte
  it then stores at offset \<open>i\<close>. \<open>stack_garbage\<close> is the initial content of the
  uninitialised array \<open>buffer\<close> of \<open>main\<close>.
\<close>

record world =
  getopt_returns :: "int list"
  getopt_optind :: nat
  getopt_argv :: "string list \<Rightarrow> string list"
  access_rw :: "string \<Rightarrow> bool"
  lstat :: "string \<Rightarrow> stat option"
  unlink_ok :: "nat \<Rightarrow> bool"
  RAND_load_file :: "string \<Rightarrow> 64 word \<Rightarrow> 32 word"
  RAND_bytes_ok :: bool
  RAND_stream :: "nat \<Rightarrow> 8 word"
  stack_garbage :: "nat \<Rightarrow> 8 word"
  opendir :: "string \<Rightarrow> opendir_result"
  mkdir_ok :: bool
  RAND_write_file :: "string \<Rightarrow> 32 word"

subsection \<open>\<open>seed_rand\<close>\<close>

text \<open>One call of \<open>unlink (seed_file)\<close>, the \<open>k\<close>-th of the run, with its \<open>perror\<close>.\<close>

definition try_unlink :: "world \<Rightarrow> nat \<Rightarrow> string \<Rightarrow> event list" where
  "try_unlink w k seed_file =
     Unlink seed_file #
     (if unlink_ok w k then [] else [Perror ''Error executing unlink on seed file: ''])"

text \<open>
  Lines 61 to 100 of \<open>seed_rand\<close>: the choice of \<open>seed\<close> and \<open>size\<close>. The result is the
  trace and, unless \<open>lstat\<close> failed (\<open>goto err_out\<close>), the chosen path and size.
  \<open>size = seed_stat.st_size\<close> narrows an \<open>off_t\<close> to an \<open>int\<close>.
\<close>

definition seed_select :: "world \<Rightarrow> string \<Rightarrow> event list \<times> (string \<times> 32 word) option" where
  "seed_select w seed_file =
    (if access_rw w seed_file then
       (case lstat w seed_file of
          None \<Rightarrow> ([Perror ''Error executing lstat on seed file: ''], None)
        | Some seed_stat \<Rightarrow>
            (let (seed1, ev1, k) =
                   (if \<not> st_isreg seed_stat then
                      (ENTROPY_SOURCE,
                       Fprintf_stderr
                         ''Seed file isn't regular file: %s. Falling back to %s\<newline>''
                         [S seed_file, S ENTROPY_SOURCE]
                       # try_unlink w 0 seed_file,
                       Suc 0)
                    else (seed_file, [], 0));
                 (seed2, sz, ev2) =
                   (if st_size seed_stat <s scast ENTROPY_SIZE then
                      (ENTROPY_SOURCE, ENTROPY_SIZE,
                       Fprintf_stderr
                         ''Seed file is too samll. Falling back to %s.\<newline>''
                         [S ENTROPY_SOURCE]
                       # try_unlink w k seed_file)
                    else (seed1, scast (st_size seed_stat), []))
             in (ev1 @ ev2, Some (seed2, sz))))
     else
       ([Fprintf_stderr
           (''Unable to access seed file. If it exists, be sure it's '' @
            ''both readable and writable. Falling back to %s.\<newline>'')
           [S ENTROPY_SOURCE]],
        Some (ENTROPY_SOURCE, ENTROPY_SIZE)))"

text \<open>Lines 102 to 111: the call of \<open>RAND_load_file\<close> and the return value.\<close>

definition seed_load :: "world \<Rightarrow> args_t \<Rightarrow> string \<Rightarrow> 32 word \<Rightarrow> int \<times> event list" where
  "seed_load w args seed sz =
     (if RAND_load_file w seed (scast sz) \<noteq> sz then
        (1, [Call_RAND_load_file seed (scast sz),
             Fprintf_stderr ''RAND_load_file failed: %s\<newline>'' [Err_reason]])
      else
        (0, Call_RAND_load_file seed (scast sz) #
            (if verbose args then
               [Fprintf_stderr ''RAND_load_file: loaded %d bytes from %s\<newline>''
                  [D (sint sz), S seed]]
             else [])))"

definition seed_rand :: "world \<Rightarrow> args_t \<Rightarrow> string \<Rightarrow> int \<times> event list" where
  "seed_rand w args seed_file =
     (case seed_select w seed_file of
        (evs, None) \<Rightarrow> (1, evs)
      | (evs, Some (seed, sz)) \<Rightarrow>
          (case seed_load w args seed sz of (r, evs') \<Rightarrow> (r, evs @ evs')))"

subsection \<open>\<open>seed_save\<close>\<close>

definition PATH_MAX :: nat where
  "PATH_MAX = 4096"

text \<open>The offset of the last occurrence of \<open>c\<close> in the string, \<open>None\<close> for \<open>NULL\<close>.\<close>

fun strrchr :: "string \<Rightarrow> char \<Rightarrow> nat option" where
  "strrchr [] c = None"
| "strrchr (x # xs) c =
     (case strrchr xs c of
        Some i \<Rightarrow> Some (Suc i)
      | None \<Rightarrow> if x = c then Some 0 else None)"

text \<open>
  \<open>seed_save\<close> is \<open>None\<close> where the C is undefined: \<open>strrchr\<close> finds no slash, or the
  directory part does not leave the zeroed \<open>dirpart\<close> its terminating zero byte.
\<close>

definition seed_save :: "world \<Rightarrow> args_t \<Rightarrow> string \<Rightarrow> (int \<times> event list) option" where
  "seed_save w args seed_file =
     (case strrchr seed_file CHR ''/'' of
        None \<Rightarrow> None
      | Some dirend \<Rightarrow>
          if PATH_MAX \<le> dirend then None
          else
            (let dirpart = take dirend seed_file;
                 ev_dir =
                   (case opendir w dirpart of
                      Dir_ENOENT \<Rightarrow>
                        Mkdir dirpart #
                        (if mkdir_ok w then []
                         else [Fprintf_stderr ''Error executing mkdir %s: '' [S dirpart],
                               Perror []])
                    | Dir_other_errno \<Rightarrow>
                        [Fprintf_stderr ''Error executing opendir on %s: '' [S dirpart],
                         Perror []]
                    | Dir_opened \<Rightarrow> [Closedir]);
                 written = RAND_write_file w seed_file
             in Some
                  (if written = - 1 then
                     (1, ev_dir @
                         [Call_RAND_write_file seed_file,
                          Fprintf_stderr ''RAND_write_file failed: %s\<newline>'' [Err_reason]])
                   else
                     (0, ev_dir @
                         Call_RAND_write_file seed_file #
                         (if verbose args then
                            [Fprintf_stderr ''RAND_write_file wrote %d bytes to %s\<newline>''
                               [D (sint written), S seed_file]]
                          else [])))))"

subsection \<open>\<open>get_rand\<close>\<close>

text \<open>
  The array \<open>dest\<close> is a function from offsets to bytes. The result is the trace and
  the array as \<open>RAND_bytes\<close> filled it, or \<open>None\<close> for the \<open>NULL\<close> the function returns
  when \<open>RAND_bytes\<close> fails.
\<close>

definition get_rand ::
  "world \<Rightarrow> args_t \<Rightarrow> (nat \<Rightarrow> 8 word) \<Rightarrow> 64 word \<Rightarrow> event list \<times> (nat \<Rightarrow> 8 word) option" where
  "get_rand w args dest sz =
     (let ev = (if verbose args
                then [Fprintf_stderr ''reading %d RAND_bytes\<newline>'' [D (uint sz)]]
                else [])
      in if \<not> RAND_bytes_ok w then
           (ev @ [Call_RAND_bytes sz,
                  Fprintf_stderr ''RAND_bytes failed: %s\<newline>'' [Err_reason]],
            None)
         else
           (ev @ [Call_RAND_bytes sz],
            Some (\<lambda>i. if i < unat sz then RAND_stream w i else dest i)))"

subsection \<open>\<open>args_parse\<close> and \<open>args_sanity\<close>\<close>

definition LONG_MIN :: int where
  "LONG_MIN = - (2 ^ 63)"

definition LONG_MAX :: int where
  "LONG_MAX = 2 ^ 63 - 1"

definition isspace :: "char \<Rightarrow> bool" where
  "isspace c \<longleftrightarrow> c \<in> set [CHR '' '', CHR 0x09, CHR 0x0A, CHR 0x0B, CHR 0x0C, CHR 0x0D]"

definition isdigit :: "char \<Rightarrow> bool" where
  "isdigit c \<longleftrightarrow> (48::nat) \<le> of_char c \<and> of_char c \<le> (57::nat)"

text \<open>The digits of \<open>strtol\<close>: the value of the longest prefix of decimal digits.\<close>

fun strtol_digits :: "int \<Rightarrow> string \<Rightarrow> int" where
  "strtol_digits a [] = a"
| "strtol_digits a (c # cs) =
     (if isdigit c then strtol_digits (10 * a + (int (of_char c) - 48)) cs else a)"

text \<open>
  \<open>strtol (s, NULL, 10)\<close> of the C library: white space is skipped, a sign is read, then
  the digits; a value out of the range of \<open>long\<close> becomes \<open>LONG_MAX\<close> or \<open>LONG_MIN\<close>;
  where there is no digit the value is 0.
\<close>

definition strtol :: "string \<Rightarrow> int" where
  "strtol s =
     (let t = dropWhile isspace s;
          (neg, u) =
            (case t of
               [] \<Rightarrow> (False, t)
             | c # r \<Rightarrow>
                 if c = CHR ''-'' then (True, r)
                 else if c = CHR ''+'' then (False, r)
                 else (False, t));
          v = strtol_digits 0 u
      in if neg then max (- v) LONG_MIN else min v LONG_MAX)"

definition USAGE :: "string list \<Rightarrow> event" where
  "USAGE argv =
     Fprintf_stderr ''Usage: %s [--hex|--verbose|--help] bytes\<newline>''
       [case argv of [] \<Rightarrow> Null | a # _ \<Rightarrow> S a]"

text \<open>
  The \<open>while\<close> loop of \<open>args_parse\<close> over the values \<open>getopt_long\<close> returns. The result
  is the trace and either the status of \<open>exit\<close> or the options read.
\<close>

fun getopt_loop :: "string list \<Rightarrow> args_t \<Rightarrow> int list \<Rightarrow> event list \<times> (int + args_t)" where
  "getopt_loop argv args [] = ([], Inr args)"
| "getopt_loop argv args (ret # rets) =
     (if ret = of_char CHR ''x'' then getopt_loop argv (args\<lparr>hex := True\<rparr>) rets
      else if ret = of_char CHR ''v'' then getopt_loop argv (args\<lparr>verbose := True\<rparr>) rets
      else if ret = of_char CHR ''h'' \<or> ret = of_char CHR ''?'' then
        ([USAGE argv], Inl EXIT_SUCCESS)
      else
        (case getopt_loop argv args rets of
           (evs, r) \<Rightarrow> (Fprintf_stderr ''Unexpected argument: %c'' [C ret] # evs, r)))"

text \<open>
  \<open>args_parse\<close>: \<open>argc\<close> is the length of \<open>argv\<close>; \<open>USAGE\<close> prints \<open>argv [0]\<close>, which
  \<open>getopt_long\<close> never moves; \<open>argv[optind]\<close> is read after the loop, in the vector as
  \<open>getopt_long\<close> has left it.
\<close>

definition args_parse :: "world \<Rightarrow> string list \<Rightarrow> event list \<times> (int + args_t)" where
  "args_parse w argv =
     (case getopt_loop argv args0 (getopt_returns w) of
        (evs, Inl status) \<Rightarrow> (evs, Inl status)
      | (evs, Inr args) \<Rightarrow>
          if length argv \<noteq> getopt_optind w + 1 then
            (evs @ [USAGE argv], Inl EXIT_FAILURE)
          else
            (evs, Inr (args\<lparr>bytes :=
               word_of_int (strtol (getopt_argv w argv ! getopt_optind w))\<rparr>)))"

text \<open>
  \<open>args.bytes\<close> is a \<open>size_t\<close>: the comparisons are unsigned, \<open>LONG_MIN\<close> and \<open>LONG_MAX\<close>
  are converted to \<open>size_t\<close>, and \<open>args.bytes <= 0\<close> holds of 0 only.
\<close>

definition args_sanity :: "args_t \<Rightarrow> int \<times> event list" where
  "args_sanity args =
     (if bytes args = word_of_int LONG_MIN \<or>
         bytes args = word_of_int LONG_MAX \<or>
         bytes args > word_of_nat MAX_BYTES \<or>
         bytes args \<le> 0
      then (1, [Fprintf_stderr
                  (CHR 0x27 # ''bytes'' @ CHR 0x27 # '' must be between 0 and %d\<newline>'')
                  [D (int MAX_BYTES)]])
      else (0, []))"

subsection \<open>\<open>main\<close>\<close>

definition hex_digit :: "nat \<Rightarrow> 8 word" where
  "hex_digit d = of_char (''0123456789abcdef'' ! d)"

text \<open>The digits of a number in base 16, most significant first, as \<open>%x\<close> prints them.\<close>

fun hex_digits :: "nat \<Rightarrow> 8 word list" where
  "hex_digits n =
     (if n < 16 then [hex_digit n] else hex_digits (n div 16) @ [hex_digit (n mod 16)])"

text \<open>\<open>printf ("%02x", b)\<close>: the digits, padded on the left with zeros to two characters.\<close>

definition printf_02x :: "8 word \<Rightarrow> 8 word list" where
  "printf_02x b =
     (let ds = hex_digits (unat b)
      in replicate (2 - length ds) (of_char CHR ''0'') @ ds)"

text \<open>The \<open>for\<close> loop of \<open>main\<close>, from the value \<open>i\<close> of its counter.\<close>

function print_loop :: "args_t \<Rightarrow> (nat \<Rightarrow> 8 word) \<Rightarrow> nat \<Rightarrow> event list" where
  "print_loop args buffer i =
     (if i < unat (bytes args) then
        (if hex args then Stdout (printf_02x (buffer i)) else Stdout [buffer i])
        # print_loop args buffer (Suc i)
      else [])"
  by pat_completeness auto
termination
  by (relation "measure (\<lambda>(args, buffer, i). unat (bytes args) - i)") auto

datatype outcome = Exited int | Undefined_behaviour

definition main :: "world \<Rightarrow> string list \<Rightarrow> outcome \<times> event list" where
  "main w argv =
     (case args_parse w argv of
        (ev0, Inl status) \<Rightarrow> (Exited status, ev0)
      | (ev0, Inr args) \<Rightarrow>
          (case args_sanity args of (r1, ev1) \<Rightarrow>
             if r1 \<noteq> 0 then (Exited EXIT_FAILURE, ev0 @ ev1)
             else
               (case seed_rand w args SEED_FILE of (r2, ev2) \<Rightarrow>
                  if r2 \<noteq> 0 then (Exited EXIT_FAILURE, ev0 @ ev1 @ ev2)
                  else
                    (case get_rand w args (stack_garbage w) (bytes args) of
                       (ev3, None) \<Rightarrow> (Exited EXIT_FAILURE, ev0 @ ev1 @ ev2 @ ev3)
                     | (ev3, Some buffer) \<Rightarrow>
                         (let ev4 = print_loop args buffer 0 @
                                    (if hex args then [Stdout [0x0A]] else [])
                          in case seed_save w args SEED_FILE of
                               None \<Rightarrow>
                                 (Undefined_behaviour, ev0 @ ev1 @ ev2 @ ev3 @ ev4)
                             | Some (r5, ev5) \<Rightarrow>
                                 (Exited EXIT_SUCCESS,
                                  ev0 @ ev1 @ ev2 @ ev3 @ ev4 @ ev5))))))"

text \<open>What a trace wrote to standard output.\<close>

fun stdout_of :: "event list \<Rightarrow> 8 word list" where
  "stdout_of [] = []"
| "stdout_of (Stdout bs # evs) = bs @ stdout_of evs"
| "stdout_of (_ # evs) = stdout_of evs"

subsection \<open>A world to run the program in\<close>

text \<open>
  A calm run: no option on the command line (so \<open>getopt_long\<close> leaves the vector as it
  is), a regular seed file of 1024 bytes that can be read and written, and every call
  succeeds. The byte at offset \<open>i\<close> of the generator's
  output is \<open>37 * i + 5\<close>.
\<close>

definition calm_world :: world where
  "calm_world =
     \<lparr>getopt_returns = [],
      getopt_optind = 1,
      getopt_argv = (\<lambda>argv. argv),
      access_rw = (\<lambda>_. True),
      lstat = (\<lambda>_. Some \<lparr>st_isreg = True, st_size = 1024\<rparr>),
      unlink_ok = (\<lambda>_. True),
      RAND_load_file = (\<lambda>_ n. scast n),
      RAND_bytes_ok = True,
      RAND_stream = (\<lambda>i. word_of_nat (37 * i + 5)),
      stack_garbage = (\<lambda>_. 0),
      opendir = (\<lambda>_. Dir_opened),
      mkdir_ok = True,
      RAND_write_file = (\<lambda>_. 1024)\<rparr>"

text \<open>The calm world, but \<open>lstat\<close> reports this kind and this size for every path.\<close>

definition seed_is :: "bool \<Rightarrow> 64 word \<Rightarrow> world" where
  "seed_is regular n = calm_world\<lparr>lstat := \<lambda>_. Some \<lparr>st_isreg = regular, st_size = n\<rparr>\<rparr>"

text \<open>
  The calm world, but \<open>getopt_long\<close> has read the one option \<open>-x\<close>, given before the
  count.
\<close>

definition hex_world :: world where
  "hex_world = calm_world\<lparr>getopt_returns := [of_char CHR ''x''], getopt_optind := 2\<rparr>"

text \<open>
  The calm world, but \<open>getopt_long\<close> has returned this one value for the one option
  given before the count.
\<close>

definition option_world :: "int \<Rightarrow> world" where
  "option_world ret = calm_world\<lparr>getopt_returns := [ret], getopt_optind := 2\<rparr>"

text \<open>
  The command line \<open>rand 16 -x\<close>: \<open>getopt_long\<close> reads \<open>-x\<close> and moves it before the
  count.
\<close>

definition permuted_world :: world where
  "permuted_world = hex_world\<lparr>getopt_argv := \<lambda>_. [''rand'', ''-x'', ''16'']\<rparr>"

section \<open>Conversions between \<open>off_t\<close>, \<open>long\<close> and \<open>int\<close>\<close>

lemma narrow_off_t:
  fixes x :: "64 word"
  assumes "- (2 ^ 31) \<le> sint x" "sint x < 2 ^ 31"
  shows "sint (scast x :: 32 word) = sint x"
  using assms by (simp add: signed_scast_eq signed_take_bit_int_eq_self)

lemma widen_int:
  fixes r :: "32 word"
  shows "sint (scast r :: 64 word) = sint r"
proof -
  have "- (2 ^ 63) \<le> sint r" "sint r < 2 ^ 63"
    using sint_ge [of r] sint_lt [of r] by simp_all
  then show ?thesis
    by (simp add: signed_scast_eq signed_take_bit_int_eq_self)
qed

lemma widen_narrow_off_t:
  fixes x :: "64 word"
  assumes "- (2 ^ 31) \<le> sint x" "sint x < 2 ^ 31"
  shows "(scast (scast x :: 32 word) :: 64 word) = x"
  using assms by (simp add: word_eq_iff_signed [where 'a = int] widen_int narrow_off_t)

lemma too_small_iff:
  fixes x :: "64 word"
  shows "x <s 32 \<longleftrightarrow> sint x < 32"
  by (simp add: word_sless_alt)

section \<open>Seed selection\<close>

lemma seed_rand_after_select:
  assumes "seed_select w f = (evs, Some (seed, sz))"
  shows "fst (seed_rand w a f) = (if RAND_load_file w seed (scast sz) = sz then 0 else 1)"
    and "\<exists>evs'. snd (seed_rand w a f) = evs @ Call_RAND_load_file seed (scast sz) # evs'"
  using assms by (simp_all add: seed_rand_def seed_load_def)

text \<open>
  Claim C5. When the seed path can be read and written and \<open>lstat\<close> reports a regular
  file shorter than 32 bytes, the selection prints a diagnostic, calls \<open>unlink\<close> on the
  path once, reports a failed \<open>unlink\<close> with \<open>perror\<close> and goes on, and chooses
  \<open>ENTROPY_SOURCE\<close> with the size 32; whether \<open>seed_rand\<close> fails is decided by
  \<open>RAND_load_file\<close> alone.
\<close>

theorem undersized_seed_falls_back:
  assumes "access_rw w f" and "lstat w f = Some st" and "st_isreg st"
    and "sint (st_size st) < 32"
  shows "(\<exists>fmt. seed_select w f =
            (Fprintf_stderr fmt [S ENTROPY_SOURCE] # Unlink f #
               (if unlink_ok w 0 then [] else [Perror ''Error executing unlink on seed file: '']),
             Some (ENTROPY_SOURCE, 32))) \<and>
         fst (seed_rand w a f) = (if RAND_load_file w ENTROPY_SOURCE 32 = 32 then 0 else 1)"
proof -
  have sel: "seed_select w f =
      (Fprintf_stderr ''Seed file is too samll. Falling back to %s.\<newline>'' [S ENTROPY_SOURCE]
         # Unlink f #
         (if unlink_ok w 0 then [] else [Perror ''Error executing unlink on seed file: '']),
       Some (ENTROPY_SOURCE, 32))"
    using assms by (simp add: seed_select_def too_small_iff try_unlink_def ENTROPY_SIZE_def)
  from seed_rand_after_select(1) [OF sel, of a] sel show ?thesis
    by simp
qed

theorem undersized_seed_falls_back_witness:
  "access_rw (seed_is True 31) SEED_FILE \<and>
   lstat (seed_is True 31) SEED_FILE = Some \<lparr>st_isreg = True, st_size = 31\<rparr> \<and>
   st_isreg \<lparr>st_isreg = True, st_size = 31\<rparr> \<and>
   sint (st_size \<lparr>st_isreg = True, st_size = 31\<rparr>) < 32 \<and>
   (\<exists>fmt. seed_select (seed_is True 31) SEED_FILE =
      (Fprintf_stderr fmt [S ENTROPY_SOURCE] # Unlink SEED_FILE #
         (if unlink_ok (seed_is True 31) 0 then []
          else [Perror ''Error executing unlink on seed file: '']),
       Some (ENTROPY_SOURCE, 32))) \<and>
   fst (seed_rand (seed_is True 31) args0 SEED_FILE) =
     (if RAND_load_file (seed_is True 31) ENTROPY_SOURCE 32 = 32 then 0 else 1)"
proof -
  have h: "access_rw (seed_is True 31) SEED_FILE"
    "lstat (seed_is True 31) SEED_FILE = Some \<lparr>st_isreg = True, st_size = 31\<rparr>"
    "st_isreg \<lparr>st_isreg = True, st_size = 31\<rparr>"
    "sint (st_size \<lparr>st_isreg = True, st_size = 31\<rparr>) < 32"
    by (simp_all add: seed_is_def calm_world_def)
  from undersized_seed_falls_back [OF h, of args0] h show ?thesis
    by blast
qed

lemma seed_select_not_regular:
  assumes "access_rw w f" and "lstat w f = Some st" and "\<not> st_isreg st"
  shows "seed_select w f =
     (Fprintf_stderr ''Seed file isn't regular file: %s. Falling back to %s\<newline>''
        [S f, S ENTROPY_SOURCE]
      # Unlink f #
      (if unlink_ok w 0 then [] else [Perror ''Error executing unlink on seed file: '']) @
      (if sint (st_size st) < 32 then
         Fprintf_stderr ''Seed file is too samll. Falling back to %s.\<newline>''
           [S ENTROPY_SOURCE]
         # Unlink f #
         (if unlink_ok w (Suc 0) then []
          else [Perror ''Error executing unlink on seed file: ''])
       else []),
      Some (ENTROPY_SOURCE, if sint (st_size st) < 32 then 32 else scast (st_size st)))"
  using assms by (simp add: seed_select_def too_small_iff try_unlink_def ENTROPY_SIZE_def)

text \<open>
  Claim C6. When the seed path can be read and written and \<open>lstat\<close> reports something that
  is not a regular file, the selection prints a diagnostic naming the path and the
  fallback, calls \<open>unlink\<close> on the path, reports a failed \<open>unlink\<close> with \<open>perror\<close> and
  goes on, and chooses \<open>ENTROPY_SOURCE\<close>; whether \<open>seed_rand\<close> fails is decided by
  \<open>RAND_load_file\<close> alone.
\<close>

theorem irregular_seed_falls_back:
  assumes "access_rw w f" and "lstat w f = Some st" and "\<not> st_isreg st"
  shows "\<exists>fmt evs sz.
           seed_select w f =
             (Fprintf_stderr fmt [S f, S ENTROPY_SOURCE] # Unlink f #
                (if unlink_ok w 0 then []
                 else [Perror ''Error executing unlink on seed file: '']) @ evs,
              Some (ENTROPY_SOURCE, sz)) \<and>
           fst (seed_rand w a f) =
             (if RAND_load_file w ENTROPY_SOURCE (scast sz) = sz then 0 else 1)"
proof -
  let ?sz = "if sint (st_size st) < 32 then 32 else scast (st_size st) :: 32 word"
  note sel = seed_select_not_regular [OF assms]
  have "fst (seed_rand w a f) =
          (if RAND_load_file w ENTROPY_SOURCE (scast ?sz) = ?sz then 0 else 1)"
    by (rule seed_rand_after_select(1) [OF sel])
  with sel show ?thesis
    by blast
qed

theorem irregular_seed_falls_back_witness:
  "access_rw (seed_is False 4096) SEED_FILE \<and>
   lstat (seed_is False 4096) SEED_FILE = Some \<lparr>st_isreg = False, st_size = 4096\<rparr> \<and>
   \<not> st_isreg \<lparr>st_isreg = False, st_size = 4096\<rparr> \<and>
   (\<exists>fmt evs sz.
      seed_select (seed_is False 4096) SEED_FILE =
        (Fprintf_stderr fmt [S SEED_FILE, S ENTROPY_SOURCE] # Unlink SEED_FILE #
           (if unlink_ok (seed_is False 4096) 0 then []
            else [Perror ''Error executing unlink on seed file: '']) @ evs,
         Some (ENTROPY_SOURCE, sz)) \<and>
      fst (seed_rand (seed_is False 4096) args0 SEED_FILE) =
        (if RAND_load_file (seed_is False 4096) ENTROPY_SOURCE (scast sz) = sz then 0 else 1))"
proof -
  have h: "access_rw (seed_is False 4096) SEED_FILE"
    "lstat (seed_is False 4096) SEED_FILE = Some \<lparr>st_isreg = False, st_size = 4096\<rparr>"
    "\<not> st_isreg \<lparr>st_isreg = False, st_size = 4096\<rparr>"
    by (simp_all add: seed_is_def calm_world_def)
  from irregular_seed_falls_back [OF h, of args0] h show ?thesis
    by blast
qed

text \<open>
  Claim C7. When \<open>access\<close> denies reading and writing the seed path, the selection
  prints one diagnostic and chooses \<open>ENTROPY_SOURCE\<close> with the size 32, and the whole
  of \<open>seed_rand\<close> calls \<open>unlink\<close> on no path.
\<close>

theorem inaccessible_seed_is_left_alone:
  assumes "\<not> access_rw w f"
  shows "(\<exists>fmt. seed_select w f =
            ([Fprintf_stderr fmt [S ENTROPY_SOURCE]], Some (ENTROPY_SOURCE, 32))) \<and>
         (\<forall>p. Unlink p \<notin> set (snd (seed_rand w a f)))"
  using assms by (simp add: seed_select_def seed_rand_def seed_load_def ENTROPY_SIZE_def)

theorem inaccessible_seed_is_left_alone_witness:
  "\<not> access_rw (calm_world\<lparr>access_rw := \<lambda>_. False\<rparr>) SEED_FILE \<and>
   (\<exists>fmt. seed_select (calm_world\<lparr>access_rw := \<lambda>_. False\<rparr>) SEED_FILE =
      ([Fprintf_stderr fmt [S ENTROPY_SOURCE]], Some (ENTROPY_SOURCE, 32))) \<and>
   (\<forall>p. Unlink p \<notin> set (snd (seed_rand (calm_world\<lparr>access_rw := \<lambda>_. False\<rparr>) args0 SEED_FILE)))"
proof -
  have h: "\<not> access_rw (calm_world\<lparr>access_rw := \<lambda>_. False\<rparr>) SEED_FILE"
    by simp
  from inaccessible_seed_is_left_alone [OF h, of args0] h show ?thesis
    by blast
qed

lemma seed_select_regular:
  assumes "access_rw w f" and "lstat w f = Some st" and "st_isreg st"
    and "32 \<le> sint (st_size st)"
  shows "seed_select w f = ([], Some (f, scast (st_size st)))"
  using assms by (simp add: seed_select_def too_small_iff ENTROPY_SIZE_def)


text \<open>
  Where the length of a regular seed file fits an \<open>int\<close>, the seed path is chosen
  without a diagnostic and \<open>RAND_load_file\<close> is asked for exactly the length of the file.
\<close>

lemma seed_read_size_within_int:
  assumes "access_rw w f" and "lstat w f = Some st" and "st_isreg st"
    and "32 \<le> sint (st_size st)" and "sint (st_size st) < 2 ^ 31"
  shows "\<exists>sz. seed_select w f = ([], Some (f, sz)) \<and> sint sz = sint (st_size st)"
    and "\<exists>evs. snd (seed_rand w a f) = Call_RAND_load_file f (st_size st) # evs"
proof -
  have sel: "seed_select w f = ([], Some (f, scast (st_size st)))"
    using assms by (simp add: seed_select_regular)
  from assms have n: "sint (scast (st_size st) :: 32 word) = sint (st_size st)"
    by (simp add: narrow_off_t)
  from sel n show "\<exists>sz. seed_select w f = ([], Some (f, sz)) \<and> sint sz = sint (st_size st)"
    by blast
  from assms have "(scast (scast (st_size st) :: 32 word) :: 64 word) = st_size st"
    by (simp add: widen_narrow_off_t)
  with seed_rand_after_select(2) [OF sel, of a]
  show "\<exists>evs. snd (seed_rand w a f) = Call_RAND_load_file f (st_size st) # evs"
    by simp
qed

text \<open>
  Claim C8. An accessible regular seed file of at least 32 bytes is to be read in its
  own length (line 91: \<open>use size from seed file\<close>). The code does so only while the
  length fits an \<open>int\<close>: line 92 narrows the \<open>off_t\<close> without a test. On a regular seed
  file of \<open>2 ^ 32 + 32\<close> bytes the seed path is chosen and 32 bytes are asked of it; on
  one of \<open>2 ^ 32\<close> bytes no byte is asked of it and \<open>seed_rand\<close> still returns 0.
\<close>

theorem seed_read_size_is_narrowed:
  "access_rw (seed_is True 4294967328) SEED_FILE \<and>
   lstat (seed_is True 4294967328) SEED_FILE =
     Some \<lparr>st_isreg = True, st_size = 4294967328\<rparr> \<and>
   sint (4294967328 :: 64 word) = 4294967328 \<and>
   seed_select (seed_is True 4294967328) SEED_FILE = ([], Some (SEED_FILE, 32)) \<and>
   seed_rand (seed_is True 4294967328) args0 SEED_FILE =
     (0, [Call_RAND_load_file SEED_FILE 32]) \<and>
   lstat (seed_is True 4294967296) SEED_FILE =
     Some \<lparr>st_isreg = True, st_size = 4294967296\<rparr> \<and>
   sint (4294967296 :: 64 word) = 4294967296 \<and>
   seed_rand (seed_is True 4294967296) args0 SEED_FILE =
     (0, [Call_RAND_load_file SEED_FILE 0])"
  by (simp add: seed_is_def calm_world_def seed_rand_def seed_select_def seed_load_def
      ENTROPY_SIZE_def args0_def)

text \<open>
  Where the path is not a regular file, the test of the size is still made on the same
  \<open>stat\<close> result. If the size is at least 32 and fits an \<open>int\<close>, \<open>unlink\<close> is called
  once and \<open>RAND_load_file\<close> is asked for that many bytes of \<open>ENTROPY_SOURCE\<close>; if the
  size is below 32, \<open>unlink\<close> is called twice and the size stays 32.
\<close>

lemma irregular_seed_read_size_within_int:
  assumes "access_rw w f" and "lstat w f = Some st" and "\<not> st_isreg st"
  shows "(32 \<le> sint (st_size st) \<and> sint (st_size st) < 2 ^ 31 \<longrightarrow>
            (\<exists>evs sz. seed_select w f = (evs, Some (ENTROPY_SOURCE, sz)) \<and>
               sint sz = sint (st_size st) \<and>
               count_list evs (Unlink f) = 1 \<and>
               (\<exists>evs'. snd (seed_rand w a f) =
                  evs @ Call_RAND_load_file ENTROPY_SOURCE (st_size st) # evs'))) \<and>
         (sint (st_size st) < 32 \<longrightarrow>
            (\<exists>evs. seed_select w f = (evs, Some (ENTROPY_SOURCE, 32)) \<and>
               count_list evs (Unlink f) = 2))"
proof (intro conjI impI)
  assume b: "32 \<le> sint (st_size st) \<and> sint (st_size st) < 2 ^ 31"
  let ?evs = "Fprintf_stderr ''Seed file isn't regular file: %s. Falling back to %s\<newline>''
        [S f, S ENTROPY_SOURCE]
      # Unlink f #
      (if unlink_ok w 0 then [] else [Perror ''Error executing unlink on seed file: ''])"
  from b have sel: "seed_select w f = (?evs, Some (ENTROPY_SOURCE, scast (st_size st)))"
    using seed_select_not_regular [OF assms] by simp
  from b have n: "sint (scast (st_size st) :: 32 word) = sint (st_size st)"
    by (simp add: narrow_off_t)
  have c: "count_list ?evs (Unlink f) = 1"
    by simp
  from b have "(scast (scast (st_size st) :: 32 word) :: 64 word) = st_size st"
    by (simp add: widen_narrow_off_t)
  with seed_rand_after_select(2) [OF sel, of a]
  have "\<exists>evs'. snd (seed_rand w a f) =
          ?evs @ Call_RAND_load_file ENTROPY_SOURCE (st_size st) # evs'"
    by simp
  with sel n c
  show "\<exists>evs sz. seed_select w f = (evs, Some (ENTROPY_SOURCE, sz)) \<and>
          sint sz = sint (st_size st) \<and>
          count_list evs (Unlink f) = 1 \<and>
          (\<exists>evs'. snd (seed_rand w a f) =
             evs @ Call_RAND_load_file ENTROPY_SOURCE (st_size st) # evs')"
    by blast
next
  assume "sint (st_size st) < 32"
  then show "\<exists>evs. seed_select w f = (evs, Some (ENTROPY_SOURCE, 32)) \<and>
               count_list evs (Unlink f) = 2"
    using seed_select_not_regular [OF assms] by simp
qed

text \<open>
  Claim C10. On a path that is not a regular file the second test reads the same
  \<open>stat\<close> result, and a size of at least 32 is to become the size asked of
  \<open>ENTROPY_SOURCE\<close>. The code does so only while the size fits an \<open>int\<close>: line 92
  narrows the \<open>off_t\<close> without a test. On a path that is not a regular file and whose
  size is \<open>2 ^ 32 + 100\<close>, \<open>unlink\<close> is called once and 100 bytes are asked of
  \<open>ENTROPY_SOURCE\<close>.
\<close>

theorem irregular_seed_read_size_is_narrowed:
  "access_rw (seed_is False 4294967396) SEED_FILE \<and>
   lstat (seed_is False 4294967396) SEED_FILE =
     Some \<lparr>st_isreg = False, st_size = 4294967396\<rparr> \<and>
   sint (4294967396 :: 64 word) = 4294967396 \<and>
   seed_rand (seed_is False 4294967396) args0 SEED_FILE =
     (0, [Fprintf_stderr ''Seed file isn't regular file: %s. Falling back to %s\<newline>''
            [S SEED_FILE, S ENTROPY_SOURCE],
          Unlink SEED_FILE,
          Call_RAND_load_file ENTROPY_SOURCE 100])"
  by (simp add: seed_is_def calm_world_def seed_rand_def seed_select_def seed_load_def
      try_unlink_def ENTROPY_SIZE_def args0_def)

lemma seed_select_cases:
  assumes "\<not> access_rw w f \<or> lstat w f \<noteq> None"
  shows "\<exists>evs seed sz. seed_select w f = (evs, Some (seed, sz)) \<and>
           (seed = f \<or> seed = ENTROPY_SOURCE)"
  using assms by (auto simp add: seed_select_def split: option.splits prod.splits)

text \<open>
  Claim C1, amended. The selection fails in one state only: \<open>access\<close> allows reading
  and writing and \<open>lstat\<close> fails; then \<open>seed_rand\<close> prints the error and returns 1
  without calling \<open>RAND_load_file\<close>. In every other state the selection chooses
  the seed path or \<open>ENTROPY_SOURCE\<close>, and \<open>seed_rand\<close> returns 1 exactly when
  \<open>RAND_load_file\<close> does not return the size asked for.
\<close>

theorem seed_select_fails_only_with_lstat:
  "(\<not> access_rw w f \<or> lstat w f \<noteq> None \<longrightarrow>
      (\<exists>evs seed sz. seed_select w f = (evs, Some (seed, sz)) \<and>
         (seed = f \<or> seed = ENTROPY_SOURCE) \<and>
         fst (seed_rand w a f) =
           (if RAND_load_file w seed (scast sz) = sz then 0 else 1))) \<and>
   (access_rw w f \<and> lstat w f = None \<longrightarrow>
      seed_rand w a f = (1, [Perror ''Error executing lstat on seed file: '']))"
proof (intro conjI impI)
  assume "\<not> access_rw w f \<or> lstat w f \<noteq> None"
  then obtain evs seed sz where sel: "seed_select w f = (evs, Some (seed, sz))"
    and s: "seed = f \<or> seed = ENTROPY_SOURCE"
    using seed_select_cases by blast
  from seed_rand_after_select(1) [OF sel, of a] sel s
  show "\<exists>evs seed sz. seed_select w f = (evs, Some (seed, sz)) \<and>
         (seed = f \<or> seed = ENTROPY_SOURCE) \<and>
         fst (seed_rand w a f) =
           (if RAND_load_file w seed (scast sz) = sz then 0 else 1)"
    by blast
next
  assume "access_rw w f \<and> lstat w f = None"
  then show "seed_rand w a f = (1, [Perror ''Error executing lstat on seed file: ''])"
    by (simp add: seed_rand_def seed_select_def)
qed


theorem seed_select_fails_only_with_lstat_witness:
  "(lstat calm_world SEED_FILE = Some \<lparr>st_isreg = True, st_size = 1024\<rparr> \<and>
    (\<exists>evs seed sz. seed_select calm_world SEED_FILE = (evs, Some (seed, sz)) \<and>
       (seed = SEED_FILE \<or> seed = ENTROPY_SOURCE) \<and>
       fst (seed_rand calm_world args0 SEED_FILE) =
         (if RAND_load_file calm_world seed (scast sz) = sz then 0 else 1))) \<and>
   ((access_rw (calm_world\<lparr>lstat := \<lambda>_. None\<rparr>) SEED_FILE \<and>
     lstat (calm_world\<lparr>lstat := \<lambda>_. None\<rparr>) SEED_FILE = None) \<and>
    seed_rand (calm_world\<lparr>lstat := \<lambda>_. None\<rparr>) args0 SEED_FILE =
      (1, [Perror ''Error executing lstat on seed file: '']))"
proof -
  have l: "lstat calm_world SEED_FILE = Some \<lparr>st_isreg = True, st_size = 1024\<rparr>"
    by (simp add: calm_world_def)
  then have a: "\<not> access_rw calm_world SEED_FILE \<or> lstat calm_world SEED_FILE \<noteq> None"
    by simp
  have b: "access_rw (calm_world\<lparr>lstat := \<lambda>_. None\<rparr>) SEED_FILE \<and>
     lstat (calm_world\<lparr>lstat := \<lambda>_. None\<rparr>) SEED_FILE = None"
    by (simp add: calm_world_def)
  from seed_select_fails_only_with_lstat [of calm_world SEED_FILE args0]
    seed_select_fails_only_with_lstat [of "calm_world\<lparr>lstat := \<lambda>_. None\<rparr>" SEED_FILE args0]
    l a b
  show ?thesis
    by blast
qed

text \<open>
  Claim C1 as stated fails where \<open>access\<close> succeeds and \<open>lstat\<close> fails: the selection
  chooses no path, and the run ends in \<open>exit (EXIT_FAILURE)\<close> before any call of
  \<open>RAND_load_file\<close>.
\<close>

theorem seed_select_fails_counterexample:
  "access_rw (calm_world\<lparr>lstat := \<lambda>_. None\<rparr>) SEED_FILE \<and>
   seed_select (calm_world\<lparr>lstat := \<lambda>_. None\<rparr>) SEED_FILE =
     ([Perror ''Error executing lstat on seed file: ''], None) \<and>
   main (calm_world\<lparr>lstat := \<lambda>_. None\<rparr>) [''rand'', ''16''] =
     (Exited EXIT_FAILURE, [Perror ''Error executing lstat on seed file: ''])"
  by code_simp

section \<open>Traces\<close>

declare print_loop.simps [simp del]
declare hex_digits.simps [simp del]

subsection \<open>Standard output of a trace\<close>

lemma stdout_of_append: "stdout_of (xs @ ys) = stdout_of xs @ stdout_of ys"
  by (induction xs rule: stdout_of.induct) simp_all

lemma stdout_of_silent:
  assumes "\<And>bs. Stdout bs \<notin> set evs"
  shows "stdout_of evs = []"
  using assms by (induction evs rule: stdout_of.induct) auto

subsection \<open>What each function can put on the trace\<close>

lemma getopt_loop_events:
  "getopt_loop argv a rets = (evs, r) \<Longrightarrow> e \<in> set evs \<Longrightarrow>
     \<exists>fmt as. e = Fprintf_stderr fmt as"
proof (induction rets arbitrary: a evs r)
  case Nil
  then show ?case by simp
next
  case (Cons ret rets)
  then show ?case
    by (fastforce simp add: USAGE_def split: if_splits prod.splits)
qed

lemma args_parse_events:
  "e \<in> set (fst (args_parse w argv)) \<Longrightarrow> \<exists>fmt as. e = Fprintf_stderr fmt as"
  by (auto simp add: args_parse_def USAGE_def split: prod.splits sum.splits if_splits
      dest: getopt_loop_events)

lemma args_sanity_events:
  "e \<in> set (snd (args_sanity a)) \<Longrightarrow> \<exists>fmt as. e = Fprintf_stderr fmt as"
  by (auto simp add: args_sanity_def split: if_splits)

lemma seed_select_events:
  "e \<in> set (fst (seed_select w f)) \<Longrightarrow>
     (\<exists>fmt as. e = Fprintf_stderr fmt as) \<or> (\<exists>p. e = Perror p) \<or> e = Unlink f"
  by (auto simp add: seed_select_def try_unlink_def split: if_splits option.splits)

lemma seed_rand_events:
  "e \<in> set (snd (seed_rand w a f)) \<Longrightarrow>
     (\<exists>fmt as. e = Fprintf_stderr fmt as) \<or> (\<exists>p. e = Perror p) \<or> e = Unlink f \<or>
     (\<exists>p n. e = Call_RAND_load_file p n)"
  using seed_select_events [of e w f]
  by (auto simp add: seed_rand_def seed_load_def split: prod.splits option.splits if_splits)

lemma get_rand_events:
  "e \<in> set (fst (get_rand w a dest n)) \<Longrightarrow>
     (\<exists>fmt as. e = Fprintf_stderr fmt as) \<or> e = Call_RAND_bytes n"
  by (auto simp add: get_rand_def Let_def split: if_splits)

lemma strrchr_SEED_FILE: "strrchr SEED_FILE CHR ''/'' = Some 13"
  by (simp add: SEED_FILE_def)

lemma seed_save_SEED_FILE:
  "\<exists>r pre post. seed_save w a SEED_FILE = Some (r, pre @ Call_RAND_write_file SEED_FILE # post) \<and>
     (\<forall>bs. Stdout bs \<notin> set pre) \<and> (\<forall>p. Call_RAND_write_file p \<notin> set pre) \<and>
     (\<forall>bs. Stdout bs \<notin> set post)"
proof -
  let ?dir = "case opendir w (take 13 SEED_FILE) of
      Dir_ENOENT \<Rightarrow>
        Mkdir (take 13 SEED_FILE) #
        (if mkdir_ok w then []
         else [Fprintf_stderr ''Error executing mkdir %s: '' [S (take 13 SEED_FILE)], Perror []])
    | Dir_other_errno \<Rightarrow>
        [Fprintf_stderr ''Error executing opendir on %s: '' [S (take 13 SEED_FILE)], Perror []]
    | Dir_opened \<Rightarrow> [Closedir]"
  have d: "(\<forall>bs. Stdout bs \<notin> set ?dir) \<and> (\<forall>p. Call_RAND_write_file p \<notin> set ?dir)"
    by (simp split: opendir_result.splits)
  have "\<exists>r post. seed_save w a SEED_FILE = Some (r, ?dir @ Call_RAND_write_file SEED_FILE # post) \<and>
          (\<forall>bs. Stdout bs \<notin> set post)"
    by (simp add: seed_save_def strrchr_SEED_FILE PATH_MAX_def Let_def)
  with d show ?thesis
    by blast
qed

subsection \<open>The output loop\<close>

lemma hex_digits_byte:
  assumes "n < 256"
  shows "hex_digits n =
           (if n < 16 then [hex_digit n] else [hex_digit (n div 16), hex_digit (n mod 16)])"
proof (cases "n < 16")
  case True
  then show ?thesis
    by (simp add: hex_digits.simps [of n])
next
  case False
  from assms have "n div 16 < 16"
    by simp
  then have "hex_digits (n div 16) = [hex_digit (n div 16)]"
    by (simp add: hex_digits.simps [of "n div 16"])
  with False show ?thesis
    by (simp add: hex_digits.simps [of n])
qed

lemma unat_byte: "unat (b :: 8 word) < 256"
  using unsigned_less [of b, where ?'a = nat] by simp

lemma printf_02x_byte:
  "printf_02x b = [hex_digit (unat b div 16), hex_digit (unat b mod 16)]"
proof (cases "unat b < 16")
  case True
  then show ?thesis
    by (simp add: printf_02x_def hex_digits_byte unat_byte hex_digit_def)
next
  case False
  then show ?thesis
    by (simp add: printf_02x_def hex_digits_byte unat_byte)
qed

lemma hex_digit_lowercase:
  assumes "d < 16"
  shows "hex_digit d \<in> of_char ` set ''0123456789abcdef''"
proof -
  have "length ''0123456789abcdef'' = 16"
    by simp
  with assms have "''0123456789abcdef'' ! d \<in> set ''0123456789abcdef''"
    by (metis nth_mem)
  then show ?thesis
    unfolding hex_digit_def by (rule imageI)
qed

lemma stdout_of_print_loop:
  "stdout_of (print_loop a buffer i) =
     concat (map (\<lambda>j. if hex a then printf_02x (buffer j) else [buffer j])
       [i..<unat (bytes a)])"
proof (induction a buffer i rule: print_loop.induct)
  case (1 a buffer i)
  show ?case
  proof (cases "i < unat (bytes a)")
    case True
    with "1" show ?thesis
      by (simp add: print_loop.simps [of a buffer i] upt_conv_Cons)
  next
    case False
    then show ?thesis
      by (simp add: print_loop.simps [of a buffer i])
  qed
qed

lemma print_loop_events:
  "e \<in> set (print_loop a buffer i) \<Longrightarrow> \<exists>bs. e = Stdout bs"
proof (induction a buffer i rule: print_loop.induct)
  case (1 a buffer i)
  then show ?case
    by (cases "i < unat (bytes a)") (auto simp add: print_loop.simps [of a buffer i])
qed

lemma concat_singletons: "concat (map (\<lambda>j. [f j]) xs) = map f xs"
  by (induction xs) simp_all

lemma length_concat_pairs: "length (concat (map (\<lambda>j. [f j, g j]) xs)) = 2 * length xs"
  by (induction xs) simp_all

subsection \<open>The runs of \<open>main\<close>\<close>

lemma args_sanity_accepts:
  assumes "fst (args_sanity a) = 0"
  shows "1 \<le> unat (bytes a)" and "unat (bytes a) \<le> 1024" and "snd (args_sanity a) = []"
proof -
  from assms have b: "\<not> bytes a > word_of_nat MAX_BYTES" "\<not> bytes a \<le> 0"
    and e: "snd (args_sanity a) = []"
    by (auto simp add: args_sanity_def split: if_splits)
  from b(2) have "bytes a \<noteq> 0"
    by simp
  then show "1 \<le> unat (bytes a)"
    by (simp add: unat_gt_0 Suc_leI)
  from b(1) have "bytes a \<le> 1024"
    by (simp add: MAX_BYTES_def not_less)
  then show "unat (bytes a) \<le> 1024"
    by (simp add: word_le_nat_alt)
  from e show "snd (args_sanity a) = []" .
qed

lemma main_runs:
  obtains (usage) ev0 st where
      "args_parse w argv = (ev0, Inl st)" "main w argv = (Exited st, ev0)"
  | (rejected) ev0 a where
      "args_parse w argv = (ev0, Inr a)" "fst (args_sanity a) \<noteq> 0"
      "main w argv = (Exited EXIT_FAILURE, ev0 @ snd (args_sanity a))"
  | (seed) ev0 a where
      "args_parse w argv = (ev0, Inr a)" "fst (args_sanity a) = 0"
      "fst (seed_rand w a SEED_FILE) \<noteq> 0"
      "main w argv = (Exited EXIT_FAILURE, ev0 @ snd (seed_rand w a SEED_FILE))"
  | (draw) ev0 a where
      "args_parse w argv = (ev0, Inr a)" "fst (args_sanity a) = 0"
      "fst (seed_rand w a SEED_FILE) = 0" "\<not> RAND_bytes_ok w"
      "main w argv =
         (Exited EXIT_FAILURE,
          ev0 @ snd (seed_rand w a SEED_FILE) @ fst (get_rand w a (stack_garbage w) (bytes a)))"
  | (saved) ev0 a r pre post where
      "args_parse w argv = (ev0, Inr a)" "fst (args_sanity a) = 0"
      "fst (seed_rand w a SEED_FILE) = 0" "RAND_bytes_ok w"
      "seed_save w a SEED_FILE = Some (r, pre @ Call_RAND_write_file SEED_FILE # post)"
      "\<forall>bs. Stdout bs \<notin> set pre" "\<forall>p. Call_RAND_write_file p \<notin> set pre"
      "\<forall>bs. Stdout bs \<notin> set post"
      "main w argv =
         (Exited EXIT_SUCCESS,
          ev0 @ snd (seed_rand w a SEED_FILE) @ fst (get_rand w a (stack_garbage w) (bytes a)) @
          (print_loop a (\<lambda>i. if i < unat (bytes a) then RAND_stream w i
                               else stack_garbage w i) 0 @
           (if hex a then [Stdout [0x0A]] else [])) @
          pre @ Call_RAND_write_file SEED_FILE # post)"
proof -
  obtain ev0 res where p: "args_parse w argv = (ev0, res)"
    by (cases "args_parse w argv")
  show thesis
  proof (cases res)
    case (Inl st)
    with p have "main w argv = (Exited st, ev0)"
      by (simp add: main_def)
    with p Inl show thesis
      by (blast intro: usage)
  next
    case (Inr a)
    note pa = p [unfolded Inr]
    obtain r1 ev1 where s1: "args_sanity a = (r1, ev1)"
      by (cases "args_sanity a")
    obtain r2 ev2 where s2: "seed_rand w a SEED_FILE = (r2, ev2)"
      by (cases "seed_rand w a SEED_FILE")
    show thesis
    proof (cases "r1 = 0")
      case False
      with pa s1 have "main w argv = (Exited EXIT_FAILURE, ev0 @ snd (args_sanity a))"
        by (simp add: main_def)
      with pa s1 False show thesis
        by (auto intro: rejected)
    next
      case s: True
      with s1 have e1: "ev1 = []"
        using args_sanity_accepts(3) [of a] by simp
      show thesis
      proof (cases "r2 = 0")
        case False
        with pa s1 s2 s e1
        have "main w argv = (Exited EXIT_FAILURE, ev0 @ snd (seed_rand w a SEED_FILE))"
          by (simp add: main_def)
        with pa s1 s2 s False show thesis
          by (auto intro: seed)
      next
        case l: True
        show thesis
        proof (cases "RAND_bytes_ok w")
          case False
          with pa s1 s2 s e1 l
          have "main w argv =
             (Exited EXIT_FAILURE,
              ev0 @ snd (seed_rand w a SEED_FILE) @
              fst (get_rand w a (stack_garbage w) (bytes a)))"
            by (simp add: main_def get_rand_def Let_def)
          with pa s1 s2 s l False show thesis
            by (auto intro: draw)
        next
          case b: True
          obtain r pre post where
            sv: "seed_save w a SEED_FILE = Some (r, pre @ Call_RAND_write_file SEED_FILE # post)"
            and q: "\<forall>bs. Stdout bs \<notin> set pre" "\<forall>p. Call_RAND_write_file p \<notin> set pre"
              "\<forall>bs. Stdout bs \<notin> set post"
            using seed_save_SEED_FILE [of w a] by blast
          from pa s1 s2 s e1 l b sv
          have "main w argv =
             (Exited EXIT_SUCCESS,
              ev0 @ snd (seed_rand w a SEED_FILE) @
              fst (get_rand w a (stack_garbage w) (bytes a)) @
              (print_loop a (\<lambda>i. if i < unat (bytes a) then RAND_stream w i
                                   else stack_garbage w i) 0 @
               (if hex a then [Stdout [0x0A]] else [])) @
              pre @ Call_RAND_write_file SEED_FILE # post)"
            by (simp add: main_def get_rand_def Let_def)
          with pa s1 s2 s l b sv q show thesis
            by (auto intro: saved)
        qed
      qed
    qed
  qed
qed

lemma args_parse_silent: "stdout_of (fst (args_parse w argv)) = []"
  by (rule stdout_of_silent) (auto dest: args_parse_events)

lemma args_sanity_silent: "stdout_of (snd (args_sanity a)) = []"
  by (rule stdout_of_silent) (auto dest: args_sanity_events)

lemma seed_rand_silent: "stdout_of (snd (seed_rand w a f)) = []"
  by (rule stdout_of_silent) (auto dest: seed_rand_events)

lemma get_rand_silent: "stdout_of (fst (get_rand w a dest n)) = []"
  by (rule stdout_of_silent) (auto dest: get_rand_events)

text \<open>The exit status and the standard output of every run.\<close>

lemma main_exit_and_output:
  "fst (main w argv) =
     (case snd (args_parse w argv) of
        Inl st \<Rightarrow> Exited st
      | Inr a \<Rightarrow>
          if fst (args_sanity a) = 0 \<and> fst (seed_rand w a SEED_FILE) = 0 \<and> RAND_bytes_ok w
          then Exited EXIT_SUCCESS else Exited EXIT_FAILURE) \<and>
   stdout_of (snd (main w argv)) =
     (case snd (args_parse w argv) of
        Inl st \<Rightarrow> []
      | Inr a \<Rightarrow>
          if fst (args_sanity a) = 0 \<and> fst (seed_rand w a SEED_FILE) = 0 \<and> RAND_bytes_ok w
          then concat (map (\<lambda>j. if hex a then printf_02x (RAND_stream w j)
                                  else [RAND_stream w j]) [0..<unat (bytes a)]) @
               (if hex a then [0x0A] else [])
          else [])"
proof (cases rule: main_runs [of w argv])
  case (usage ev0 st)
  then show ?thesis
    using args_parse_silent [of w argv] by simp
next
  case (rejected ev0 a)
  then show ?thesis
    using args_parse_silent [of w argv]
    by (simp add: stdout_of_append args_sanity_silent)
next
  case (seed ev0 a)
  then show ?thesis
    using args_parse_silent [of w argv]
    by (simp add: stdout_of_append seed_rand_silent)
next
  case (draw ev0 a)
  then show ?thesis
    using args_parse_silent [of w argv]
    by (simp add: stdout_of_append seed_rand_silent get_rand_silent)
next
  case (saved ev0 a r pre post)
  let ?buffer = "\<lambda>i. if i < unat (bytes a) then RAND_stream w i else stack_garbage w i"
  have m: "map (\<lambda>j. if hex a then printf_02x (?buffer j) else [?buffer j])
             [0..<unat (bytes a)] =
           map (\<lambda>j. if hex a then printf_02x (RAND_stream w j) else [RAND_stream w j])
             [0..<unat (bytes a)]"
    by (rule map_cong) simp_all
  from saved have "stdout_of (snd (main w argv)) =
      concat (map (\<lambda>j. if hex a then printf_02x (?buffer j) else [?buffer j])
        [0..<unat (bytes a)]) @ (if hex a then [0x0A] else [])"
    using args_parse_silent [of w argv]
    by (simp add: stdout_of_append seed_rand_silent get_rand_silent stdout_of_print_loop
        stdout_of_silent)
  then have "stdout_of (snd (main w argv)) =
      concat (map (\<lambda>j. if hex a then printf_02x (RAND_stream w j) else [RAND_stream w j])
        [0..<unat (bytes a)]) @ (if hex a then [0x0A] else [])"
    by (simp only: m)
  with saved show ?thesis
    by simp
qed

section \<open>Output, failed draws and failed saves\<close>

text \<open>
  Claim C2. In a run whose command line \<open>args_parse\<close> accepted and that exits with
  \<open>EXIT_SUCCESS\<close>, the count \<open>args.bytes\<close> is between 1 and 1024. Without \<open>--hex\<close>
  standard output is exactly the \<open>args.bytes\<close> bytes that \<open>RAND_bytes\<close> stored, with no
  newline added. With \<open>--hex\<close> it is, for each of these bytes in order, the two
  digits of its high and low half, then one newline: \<open>2 * args.bytes + 1\<close> characters,
  all but the last from \<open>0123456789abcdef\<close>.
\<close>

theorem output_is_raw_or_hex:
  assumes "args_parse w argv = (ev0, Inr a)"
    and "main w argv = (Exited EXIT_SUCCESS, evs)"
  shows "1 \<le> unat (bytes a) \<and> unat (bytes a) \<le> 1024 \<and>
     (\<not> hex a \<longrightarrow>
        stdout_of evs = map (RAND_stream w) [0..<unat (bytes a)] \<and>
        length (stdout_of evs) = unat (bytes a)) \<and>
     (hex a \<longrightarrow>
        stdout_of evs =
          concat (map (\<lambda>i. [hex_digit (unat (RAND_stream w i) div 16),
                             hex_digit (unat (RAND_stream w i) mod 16)])
            [0..<unat (bytes a)]) @ [0x0A] \<and>
        length (stdout_of evs) = 2 * unat (bytes a) + 1 \<and>
        set (butlast (stdout_of evs)) \<subseteq> of_char ` set ''0123456789abcdef'')"
proof -
  let ?ok = "fst (args_sanity a) = 0 \<and> fst (seed_rand w a SEED_FILE) = 0 \<and> RAND_bytes_ok w"
  from main_exit_and_output [of w argv] assms
  have e: "Exited EXIT_SUCCESS = (if ?ok then Exited EXIT_SUCCESS else Exited EXIT_FAILURE)"
    and o: "stdout_of evs =
      (if ?ok
       then concat (map (\<lambda>j. if hex a then printf_02x (RAND_stream w j)
                               else [RAND_stream w j]) [0..<unat (bytes a)]) @
            (if hex a then [0x0A] else [])
       else [])"
    by simp_all
  from e have ok: ?ok
    by (simp add: EXIT_SUCCESS_def EXIT_FAILURE_def split: if_splits)
  then have n: "1 \<le> unat (bytes a)" "unat (bytes a) \<le> 1024"
    using args_sanity_accepts(1,2) [of a] by simp_all
  have raw: "stdout_of evs = map (RAND_stream w) [0..<unat (bytes a)]" if "\<not> hex a"
    using that o ok by (simp add: concat_singletons)
  have hx: "stdout_of evs =
      concat (map (\<lambda>i. [hex_digit (unat (RAND_stream w i) div 16),
                         hex_digit (unat (RAND_stream w i) mod 16)])
        [0..<unat (bytes a)]) @ [0x0A]" if "hex a"
    using that o ok by (simp add: printf_02x_byte)
  have len: "length (stdout_of evs) = 2 * unat (bytes a) + 1" if "hex a"
    using hx [OF that] by (simp add: length_concat_pairs)
  have low: "set (butlast (stdout_of evs)) \<subseteq> of_char ` set ''0123456789abcdef''" if "hex a"
  proof -
    have d1: "hex_digit (unat b div 16) \<in> of_char ` set ''0123456789abcdef''"
      for b :: "8 word"
      using unat_byte [of b] by (intro hex_digit_lowercase) simp
    have d2: "hex_digit (unat b mod 16) \<in> of_char ` set ''0123456789abcdef''"
      for b :: "8 word"
      by (intro hex_digit_lowercase) simp
    have "butlast (stdout_of evs) =
        concat (map (\<lambda>i. [hex_digit (unat (RAND_stream w i) div 16),
                           hex_digit (unat (RAND_stream w i) mod 16)])
          [0..<unat (bytes a)])"
      using hx [OF that] by simp
    then show ?thesis
      using d1 d2 by auto
  qed
  from n raw hx len low show ?thesis
    by simp
qed

theorem output_is_raw_or_hex_witness:
  "(args_parse hex_world [''rand'', ''-x'', ''16''] =
      ([], Inr \<lparr>hex = True, verbose = False, bytes = 16\<rparr>) \<and>
    main hex_world [''rand'', ''-x'', ''16''] =
      (Exited EXIT_SUCCESS, snd (main hex_world [''rand'', ''-x'', ''16''])) \<and>
    length (stdout_of (snd (main hex_world [''rand'', ''-x'', ''16'']))) = 33 \<and>
    set (butlast (stdout_of (snd (main hex_world [''rand'', ''-x'', ''16''])))) \<subseteq>
      of_char ` set ''0123456789abcdef'') \<and>
   (args_parse calm_world [''rand'', ''3''] =
      ([], Inr \<lparr>hex = False, verbose = False, bytes = 3\<rparr>) \<and>
    main calm_world [''rand'', ''3''] =
      (Exited EXIT_SUCCESS, snd (main calm_world [''rand'', ''3''])) \<and>
    stdout_of (snd (main calm_world [''rand'', ''3''])) = [5, 42, 79])"
proof -
  have p1: "args_parse hex_world [''rand'', ''-x'', ''16''] =
      ([], Inr \<lparr>hex = True, verbose = False, bytes = 16\<rparr>)"
    by code_simp
  have "fst (main hex_world [''rand'', ''-x'', ''16'']) = Exited EXIT_SUCCESS"
    by code_simp
  then have m1: "main hex_world [''rand'', ''-x'', ''16''] =
      (Exited EXIT_SUCCESS, snd (main hex_world [''rand'', ''-x'', ''16'']))"
    by (simp add: prod_eq_iff)
  have p2: "args_parse calm_world [''rand'', ''3''] =
      ([], Inr \<lparr>hex = False, verbose = False, bytes = 3\<rparr>)"
    by code_simp
  have "fst (main calm_world [''rand'', ''3'']) = Exited EXIT_SUCCESS"
    by code_simp
  then have m2: "main calm_world [''rand'', ''3''] =
      (Exited EXIT_SUCCESS, snd (main calm_world [''rand'', ''3'']))"
    by (simp add: prod_eq_iff)
  have s: "map (RAND_stream calm_world) [0..<unat (3 :: 64 word)] = [5, 42, 79]"
    by code_simp
  have "hex \<lparr>hex = True, verbose = False, bytes = 16\<rparr>"
    by simp
  with output_is_raw_or_hex [OF p1 m1]
  have "length (stdout_of (snd (main hex_world [''rand'', ''-x'', ''16'']))) =
          2 * unat (bytes \<lparr>hex = True, verbose = False, bytes = 16\<rparr>) + 1 \<and>
        set (butlast (stdout_of (snd (main hex_world [''rand'', ''-x'', ''16''])))) \<subseteq>
          of_char ` set ''0123456789abcdef''"
    by blast
  then have h: "length (stdout_of (snd (main hex_world [''rand'', ''-x'', ''16'']))) = 33 \<and>
        set (butlast (stdout_of (snd (main hex_world [''rand'', ''-x'', ''16''])))) \<subseteq>
          of_char ` set ''0123456789abcdef''"
    by simp
  have "\<not> hex \<lparr>hex = False, verbose = False, bytes = 3\<rparr>"
    by simp
  with output_is_raw_or_hex [OF p2 m2]
  have "stdout_of (snd (main calm_world [''rand'', ''3''])) =
          map (RAND_stream calm_world)
            [0..<unat (bytes \<lparr>hex = False, verbose = False, bytes = 3\<rparr>)]"
    by blast
  with s have r: "stdout_of (snd (main calm_world [''rand'', ''3''])) = [5, 42, 79]"
    by simp
  from p1 m1 h p2 m2 r show ?thesis
    by blast
qed

text \<open>
  Claim C3. When \<open>RAND_bytes\<close> does not return 1, the run writes nothing to standard
  output, and if \<open>RAND_bytes\<close> was called at all the run ends in
  \<open>exit (EXIT_FAILURE)\<close>.
\<close>

theorem failed_draw_writes_nothing:
  assumes "\<not> RAND_bytes_ok w"
  shows "stdout_of (snd (main w argv)) = [] \<and>
         (\<forall>n. Call_RAND_bytes n \<in> set (snd (main w argv)) \<longrightarrow>
            fst (main w argv) = Exited EXIT_FAILURE)"
proof
  from assms show "stdout_of (snd (main w argv)) = []"
    using main_exit_and_output [of w argv] by (simp split: sum.splits)
  show "\<forall>n. Call_RAND_bytes n \<in> set (snd (main w argv)) \<longrightarrow>
          fst (main w argv) = Exited EXIT_FAILURE"
  proof (cases rule: main_runs [of w argv])
    case (usage ev0 st)
    then show ?thesis
      using args_parse_events [of _ w argv] by auto
  next
    case (rejected ev0 a)
    then show ?thesis
      by simp
  next
    case (seed ev0 a)
    then show ?thesis
      by simp
  next
    case (draw ev0 a)
    then show ?thesis
      by simp
  next
    case (saved ev0 a r pre post)
    with assms show ?thesis
      by simp
  qed
qed

theorem failed_draw_writes_nothing_witness:
  "\<not> RAND_bytes_ok (calm_world\<lparr>RAND_bytes_ok := False\<rparr>) \<and>
   Call_RAND_bytes 16 \<in> set (snd (main (calm_world\<lparr>RAND_bytes_ok := False\<rparr>) [''rand'', ''16''])) \<and>
   stdout_of (snd (main (calm_world\<lparr>RAND_bytes_ok := False\<rparr>) [''rand'', ''16''])) = [] \<and>
   fst (main (calm_world\<lparr>RAND_bytes_ok := False\<rparr>) [''rand'', ''16'']) = Exited EXIT_FAILURE"
proof -
  have h: "\<not> RAND_bytes_ok (calm_world\<lparr>RAND_bytes_ok := False\<rparr>)"
    by simp
  have "main (calm_world\<lparr>RAND_bytes_ok := False\<rparr>) [''rand'', ''16''] =
      (Exited EXIT_FAILURE,
       [Call_RAND_load_file SEED_FILE 1024, Call_RAND_bytes 16,
        Fprintf_stderr ''RAND_bytes failed: %s\<newline>'' [Err_reason]])"
    by code_simp
  then have c: "Call_RAND_bytes 16 \<in>
      set (snd (main (calm_world\<lparr>RAND_bytes_ok := False\<rparr>) [''rand'', ''16'']))"
    by simp
  from failed_draw_writes_nothing [OF h, of "[''rand'', ''16'']"] h c show ?thesis
    by blast
qed

lemma args_parse_ignores_save:
  "args_parse (w\<lparr>opendir := d, mkdir_ok := m, RAND_write_file := r\<rparr>) argv = args_parse w argv"
  by (simp add: args_parse_def split: prod.splits sum.splits)

lemma seed_rand_ignores_save:
  "seed_rand (w\<lparr>opendir := d, mkdir_ok := m, RAND_write_file := r\<rparr>) a f = seed_rand w a f"
  by (simp add: seed_rand_def seed_select_def seed_load_def try_unlink_def
      split: prod.splits option.splits)

lemma main_cong:
  assumes "args_parse w' argv = args_parse w argv"
    and "\<And>a. seed_rand w' a SEED_FILE = seed_rand w a SEED_FILE"
    and "RAND_bytes_ok w' = RAND_bytes_ok w"
    and "RAND_stream w' = RAND_stream w"
  shows "fst (main w' argv) = fst (main w argv) \<and>
         stdout_of (snd (main w' argv)) = stdout_of (snd (main w argv))"
proof -
  note l = main_exit_and_output [of w' argv, unfolded assms]
  note r = main_exit_and_output [of w argv]
  from l r show ?thesis
    by (simp only:)
qed

lemma save_only_in_seed_save:
  "Call_RAND_write_file p \<notin> set (fst (args_parse w argv))"
  "Call_RAND_write_file p \<notin> set (snd (args_sanity a))"
  "Call_RAND_write_file p \<notin> set (snd (seed_rand w a f))"
  "Call_RAND_write_file p \<notin> set (fst (get_rand w a dest n))"
  "Call_RAND_write_file p \<notin> set (print_loop a buffer i)"
  using args_parse_events [of "Call_RAND_write_file p" w argv]
    args_sanity_events [of "Call_RAND_write_file p" a]
    seed_rand_events [of "Call_RAND_write_file p" w a f]
    get_rand_events [of "Call_RAND_write_file p" w a dest n]
    print_loop_events [of "Call_RAND_write_file p" a buffer i]
  by blast+

text \<open>
  Claim C4. Neither the exit status nor standard output depends on what \<open>opendir\<close>,
  \<open>mkdir\<close> and \<open>RAND_write_file\<close> answer. In a run that calls \<open>RAND_write_file\<close> the
  exit status is \<open>EXIT_SUCCESS\<close>, whatever the call returns, and everything the run
  writes to standard output is written before the call.
\<close>

theorem failed_save_is_not_fatal:
  "fst (main (w\<lparr>opendir := d, mkdir_ok := m, RAND_write_file := r\<rparr>) argv) = fst (main w argv) \<and>
   stdout_of (snd (main (w\<lparr>opendir := d, mkdir_ok := m, RAND_write_file := r\<rparr>) argv)) =
     stdout_of (snd (main w argv)) \<and>
   (\<forall>p. Call_RAND_write_file p \<in> set (snd (main w argv)) \<longrightarrow>
      fst (main w argv) = Exited EXIT_SUCCESS \<and>
      (\<exists>pre post. snd (main w argv) = pre @ Call_RAND_write_file p # post \<and>
         stdout_of pre = stdout_of (snd (main w argv))))"
proof -
  let ?w = "w\<lparr>opendir := d, mkdir_ok := m, RAND_write_file := r\<rparr>"
  have same: "fst (main ?w argv) = fst (main w argv) \<and>
      stdout_of (snd (main ?w argv)) = stdout_of (snd (main w argv))"
    by (rule main_cong) (simp_all add: args_parse_ignores_save seed_rand_ignores_save)
  have order: "fst (main w argv) = Exited EXIT_SUCCESS \<and>
      (\<exists>pre post. snd (main w argv) = pre @ Call_RAND_write_file p # post \<and>
         stdout_of pre = stdout_of (snd (main w argv)))"
    if c: "Call_RAND_write_file p \<in> set (snd (main w argv))" for p
  proof (cases rule: main_runs [of w argv])
    case (usage ev0 st)
    with c save_only_in_seed_save(1) [of p w argv] show ?thesis
      by simp
  next
    case (rejected ev0 a)
    with c save_only_in_seed_save(1) [of p w argv] save_only_in_seed_save(2) [of p a]
    show ?thesis
      by simp
  next
    case (seed ev0 a)
    with c save_only_in_seed_save(1) [of p w argv]
      save_only_in_seed_save(3) [of p w a SEED_FILE]
    show ?thesis
      by simp
  next
    case (draw ev0 a)
    with c save_only_in_seed_save(1) [of p w argv]
      save_only_in_seed_save(3) [of p w a SEED_FILE]
      save_only_in_seed_save(4) [of p w a "stack_garbage w" "bytes a"]
    show ?thesis
      by simp
  next
    case (saved ev0 a r' pre post)
    define front where "front = ev0 @ snd (seed_rand w a SEED_FILE) @
        fst (get_rand w a (stack_garbage w) (bytes a)) @
        (print_loop a (\<lambda>i. if i < unat (bytes a) then RAND_stream w i
                             else stack_garbage w i) 0 @
         (if hex a then [Stdout [0x0A]] else []))"
    define rear where "rear = pre @ Call_RAND_write_file SEED_FILE # post"
    from saved(9) have evs: "snd (main w argv) = front @ rear"
      by (simp add: front_def rear_def)
    from saved(1) have "ev0 = fst (args_parse w argv)"
      by simp
    then have nf: "Call_RAND_write_file p \<notin> set front"
      using save_only_in_seed_save [of p]
      by (simp add: front_def)
    with c evs have "Call_RAND_write_file p \<in> set rear"
      by simp
    then obtain t1 t2 where t: "rear = t1 @ Call_RAND_write_file p # t2"
      by (meson split_list)
    have "\<forall>bs. Stdout bs \<notin> set rear"
      using saved(6,8) by (simp add: rear_def)
    with t have q: "\<forall>bs. Stdout bs \<notin> set t1" "\<forall>bs. Stdout bs \<notin> set t2"
      by simp_all
    from evs t have e: "snd (main w argv) = (front @ t1) @ Call_RAND_write_file p # t2"
      by simp
    have "stdout_of (front @ t1) = stdout_of ((front @ t1) @ Call_RAND_write_file p # t2)"
      using q by (simp add: stdout_of_append stdout_of_silent)
    with e have s: "stdout_of (front @ t1) = stdout_of (snd (main w argv))"
      by simp
    from saved(9) have "fst (main w argv) = Exited EXIT_SUCCESS"
      by simp
    with e s show ?thesis
      by blast
  qed
  from same order show ?thesis
    by blast
qed

theorem failed_save_is_not_fatal_witness:
  "seed_save (calm_world\<lparr>RAND_write_file := \<lambda>_. - 1\<rparr>) args0 SEED_FILE =
     Some (1, [Closedir, Call_RAND_write_file SEED_FILE,
               Fprintf_stderr ''RAND_write_file failed: %s\<newline>'' [Err_reason]]) \<and>
   Call_RAND_write_file SEED_FILE \<in>
     set (snd (main (calm_world\<lparr>RAND_write_file := \<lambda>_. - 1\<rparr>) [''rand'', ''3''])) \<and>
   fst (main (calm_world\<lparr>RAND_write_file := \<lambda>_. - 1\<rparr>) [''rand'', ''3'']) =
     Exited EXIT_SUCCESS \<and>
   (\<exists>pre post.
      snd (main (calm_world\<lparr>RAND_write_file := \<lambda>_. - 1\<rparr>) [''rand'', ''3'']) =
        pre @ Call_RAND_write_file SEED_FILE # post \<and>
      stdout_of pre =
        stdout_of (snd (main (calm_world\<lparr>RAND_write_file := \<lambda>_. - 1\<rparr>) [''rand'', ''3''])))"
proof -
  have s: "seed_save (calm_world\<lparr>RAND_write_file := \<lambda>_. - 1\<rparr>) args0 SEED_FILE =
     Some (1, [Closedir, Call_RAND_write_file SEED_FILE,
               Fprintf_stderr ''RAND_write_file failed: %s\<newline>'' [Err_reason]])"
    by code_simp
  have "main (calm_world\<lparr>RAND_write_file := \<lambda>_. - 1\<rparr>) [''rand'', ''3''] =
      (Exited EXIT_SUCCESS,
       [Call_RAND_load_file SEED_FILE 1024, Call_RAND_bytes 3,
        Stdout [5], Stdout [42], Stdout [79],
        Closedir, Call_RAND_write_file SEED_FILE,
        Fprintf_stderr ''RAND_write_file failed: %s\<newline>'' [Err_reason]])"
    by code_simp
  then have c: "Call_RAND_write_file SEED_FILE \<in>
      set (snd (main (calm_world\<lparr>RAND_write_file := \<lambda>_. - 1\<rparr>) [''rand'', ''3'']))"
    by simp
  from failed_save_is_not_fatal
    [where w = "calm_world\<lparr>RAND_write_file := \<lambda>_. - 1\<rparr>" and argv = "[''rand'', ''3'']"] s c
  show ?thesis
    by blast
qed

section \<open>The command line\<close>

lemma strtol_digits_nonneg: "0 \<le> a \<Longrightarrow> 0 \<le> strtol_digits a cs"
  by (induction cs arbitrary: a) (simp_all add: isdigit_def)

lemma strtol_range: "LONG_MIN \<le> strtol s" "strtol s \<le> LONG_MAX"
proof -
  have b: "LONG_MIN \<le> max (- strtol_digits 0 u) LONG_MIN \<and>
           max (- strtol_digits 0 u) LONG_MIN \<le> LONG_MAX \<and>
           LONG_MIN \<le> min (strtol_digits 0 u) LONG_MAX \<and>
           min (strtol_digits 0 u) LONG_MAX \<le> LONG_MAX" for u
    using strtol_digits_nonneg [of 0 u] by (simp add: LONG_MIN_def LONG_MAX_def)
  have "\<exists>neg u. strtol s =
      (if neg then max (- strtol_digits 0 u) LONG_MIN else min (strtol_digits 0 u) LONG_MAX)"
    unfolding strtol_def Let_def split_beta by blast
  then obtain neg u where "strtol s =
      (if neg then max (- strtol_digits 0 u) LONG_MIN else min (strtol_digits 0 u) LONG_MAX)"
    by blast
  with b [of u] show "LONG_MIN \<le> strtol s" "strtol s \<le> LONG_MAX"
    by (simp_all split: if_splits)
qed

lemma getopt_loop_continues:
  assumes "\<forall>r \<in> set rets. r \<noteq> of_char CHR ''h'' \<and> r \<noteq> of_char CHR ''?''"
  shows "\<exists>args'. snd (getopt_loop argv args rets) = Inr args'"
  using assms
proof (induction rets arbitrary: args)
  case Nil
  then show ?case by simp
next
  case (Cons ret rets)
  then have ih: "\<exists>args'. snd (getopt_loop argv a rets) = Inr args'" for a
    by simp
  from Cons.prems have "ret \<noteq> of_char CHR ''h''" "ret \<noteq> of_char CHR ''?''"
    by simp_all
  then show ?case
    using ih [of "args\<lparr>hex := True\<rparr>"] ih [of "args\<lparr>verbose := True\<rparr>"] ih [of args]
    by (simp add: split_beta)
qed

lemma long_as_size_t:
  assumes "LONG_MIN \<le> k" and "k \<le> LONG_MAX"
  shows "uint (word_of_int k :: 64 word) = (if k < 0 then k + 2 ^ 64 else k)"
proof (cases "k < 0")
  case True
  from True assms(1) have "0 \<le> k + 2 ^ 64" "k + 2 ^ 64 < 2 ^ 64"
    by (simp_all add: LONG_MIN_def)
  then have "(k + 2 ^ 64) mod 2 ^ 64 = k + 2 ^ 64"
    by (rule mod_pos_pos_trivial)
  moreover have "k mod 2 ^ 64 = (k + 2 ^ 64) mod 2 ^ 64"
    by simp
  ultimately have "k mod 2 ^ 64 = k + 2 ^ 64"
    by (simp only:)
  with True show ?thesis
    by (simp add: uint_word_of_int)
next
  case False
  with assms(2) have "k mod 2 ^ 64 = k"
    by (simp add: LONG_MAX_def)
  with False show ?thesis
    by (simp add: uint_word_of_int)
qed

lemma args_sanity_rejects:
  assumes "LONG_MIN \<le> k" and "k \<le> LONG_MAX" and "k < 1 \<or> 1024 < k"
  shows "args_sanity (args\<lparr>bytes := word_of_int k\<rparr>) =
    (1, [Fprintf_stderr
           (CHR 0x27 # ''bytes'' @ CHR 0x27 # '' must be between 0 and %d\<newline>'')
           [D 1024]])"
proof -
  have "(word_of_int k :: 64 word) > 1024 \<or> (word_of_int k :: 64 word) \<le> 0"
  proof (cases "k = 0")
    case True
    then show ?thesis by simp
  next
    case False
    with assms have "1024 < uint (word_of_int k :: 64 word)"
      by (auto simp add: long_as_size_t LONG_MIN_def)
    then show ?thesis
      by (simp add: word_less_def)
  qed
  then show ?thesis
    by (auto simp add: args_sanity_def MAX_BYTES_def)
qed

lemma args_sanity_accepts_in_range:
  assumes "1 \<le> k" and "k \<le> 1024"
  shows "args_sanity (args\<lparr>bytes := word_of_int k\<rparr>) = (0, [])"
    and "uint (word_of_int k :: 64 word) = k"
proof -
  from assms have r: "LONG_MIN \<le> k" "k \<le> LONG_MAX"
    by (simp_all add: LONG_MIN_def LONG_MAX_def)
  from assms show u: "uint (word_of_int k :: 64 word) = k"
    by (simp add: long_as_size_t [OF r])
  have "uint (word_of_int LONG_MIN :: 64 word) = 2 ^ 63"
    by (simp add: long_as_size_t LONG_MIN_def LONG_MAX_def)
  with u assms have a: "(word_of_int k :: 64 word) \<noteq> word_of_int LONG_MIN"
    by auto
  have "uint (word_of_int LONG_MAX :: 64 word) = 2 ^ 63 - 1"
    by (simp add: long_as_size_t LONG_MIN_def LONG_MAX_def)
  with u assms have b: "(word_of_int k :: 64 word) \<noteq> word_of_int LONG_MAX"
    by auto
  from u assms have c: "\<not> (word_of_int k :: 64 word) > 1024" "\<not> (word_of_int k :: 64 word) \<le> 0"
    by (simp_all add: word_less_def word_le_def)
  from a b c show "args_sanity (args\<lparr>bytes := word_of_int k\<rparr>) = (0, [])"
    by (simp add: args_sanity_def MAX_BYTES_def)
qed

lemma strtol_digits_prefix:
  assumes "\<forall>d \<in> set ds. isdigit d" and "\<not> isdigit c"
  shows "strtol_digits a (ds @ c # rest) = strtol_digits a ds"
  using assms by (induction ds arbitrary: a) simp_all

lemma digit_is_no_space_or_sign:
  assumes "isdigit d"
  shows "\<not> isspace d" and "d \<noteq> CHR ''-''" and "d \<noteq> CHR ''+''"
  using assms by (auto simp add: isdigit_def isspace_def)

lemma strtol_ignores_tail:
  assumes "ds \<noteq> []" and "\<forall>d \<in> set ds. isdigit d" and "\<not> isdigit c"
  shows "strtol (ds @ c # rest) = strtol ds"
proof -
  from assms(1) obtain d ds' where ds: "ds = d # ds'"
    by (cases ds) simp_all
  with assms(2) have d: "isdigit d" and ds': "\<forall>d \<in> set ds'. isdigit d"
    by simp_all
  from d ds' assms(3) show ?thesis
    by (simp add: ds strtol_def digit_is_no_space_or_sign strtol_digits_prefix)
qed

lemma main_after_sanity:
  assumes "args_parse w argv = (ev0, Inr a)" and "fst (args_sanity a) = 0"
  shows "\<exists>evs'. snd (main w argv) = ev0 @ snd (seed_rand w a SEED_FILE) @ evs'"
proof (cases rule: main_runs [of w argv])
  case (usage ev0' st)
  with assms show ?thesis by simp
next
  case (rejected ev0' a')
  with assms show ?thesis by simp
next
  case (seed ev0' a')
  with assms show ?thesis by simp
next
  case (draw ev0' a')
  with assms show ?thesis by simp
next
  case (saved ev0' a' r pre post)
  with assms show ?thesis by simp
qed

text \<open>
  Claim C9, amended. Take a run in which \<open>getopt_long\<close> reports neither \<open>h\<close> nor \<open>?\<close>
  and leaves one argument after the options, and let \<open>k\<close> be what \<open>strtol\<close> reads from
  that argument, in the vector as \<open>getopt_long\<close> has left it. If \<open>k\<close> is below 1 or
  above 1024, the run ends in \<open>exit (EXIT_FAILURE)\<close> having done nothing but print the
  option loop's messages and the range message. If \<open>k\<close> is between 1 and 1024, the
  argument is accepted with \<open>args.bytes = k\<close>, the run goes on with \<open>seed_rand\<close>, and it
  exits with \<open>EXIT_SUCCESS\<close> exactly when \<open>seed_rand\<close> returns 0 and \<open>RAND_bytes\<close>
  succeeds. An argument that begins with decimal digits is read as those digits,
  whatever follows them. Runs in which \<open>getopt_long\<close> reports \<open>h\<close> or \<open>?\<close> are left out.
\<close>

theorem count_is_what_strtol_reads:
  assumes "\<forall>r \<in> set (getopt_returns w). r \<noteq> of_char CHR ''h'' \<and> r \<noteq> of_char CHR ''?''"
    and "length argv = getopt_optind w + 1"
  shows
    "(strtol (getopt_argv w argv ! getopt_optind w) < 1 \<or>
      1024 < strtol (getopt_argv w argv ! getopt_optind w) \<longrightarrow>
        (\<exists>fmt. main w argv =
           (Exited EXIT_FAILURE,
            fst (getopt_loop argv args0 (getopt_returns w)) @ [Fprintf_stderr fmt [D 1024]]))) \<and>
     (1 \<le> strtol (getopt_argv w argv ! getopt_optind w) \<and>
      strtol (getopt_argv w argv ! getopt_optind w) \<le> 1024 \<longrightarrow>
        (\<exists>a evs'.
           args_parse w argv = (fst (getopt_loop argv args0 (getopt_returns w)), Inr a) \<and>
           uint (bytes a) = strtol (getopt_argv w argv ! getopt_optind w) \<and>
           args_sanity a = (0, []) \<and>
           snd (main w argv) =
             fst (getopt_loop argv args0 (getopt_returns w)) @
             snd (seed_rand w a SEED_FILE) @ evs' \<and>
           fst (main w argv) =
             (if fst (seed_rand w a SEED_FILE) = 0 \<and> RAND_bytes_ok w
              then Exited EXIT_SUCCESS else Exited EXIT_FAILURE))) \<and>
     (ds \<noteq> [] \<and> (\<forall>d \<in> set ds. isdigit d) \<and> \<not> isdigit c \<longrightarrow>
        strtol (ds @ c # rest) = strtol ds)"
proof -
  let ?k = "strtol (getopt_argv w argv ! getopt_optind w)"
  obtain evs r where g: "getopt_loop argv args0 (getopt_returns w) = (evs, r)"
    by (cases "getopt_loop argv args0 (getopt_returns w)")
  with getopt_loop_continues [OF assms(1), of argv args0]
  obtain args' where r: "r = Inr args'"
    by auto
  let ?a = "args'\<lparr>bytes := word_of_int ?k\<rparr>"
  from g r assms(2) have p: "args_parse w argv = (evs, Inr ?a)"
    by (simp add: args_parse_def)
  have low: "\<exists>fmt. main w argv =
      (Exited EXIT_FAILURE,
       fst (getopt_loop argv args0 (getopt_returns w)) @ [Fprintf_stderr fmt [D 1024]])"
    if o: "?k < 1 \<or> 1024 < ?k"
  proof -
    have "args_sanity ?a =
        (1, [Fprintf_stderr
               (CHR 0x27 # ''bytes'' @ CHR 0x27 # '' must be between 0 and %d\<newline>'')
               [D 1024]])"
      using strtol_range [of "getopt_argv w argv ! getopt_optind w"] o
      by (rule args_sanity_rejects)
    with p g show ?thesis
      by (simp add: main_def)
  qed
  have mid: "\<exists>a evs'.
      args_parse w argv = (fst (getopt_loop argv args0 (getopt_returns w)), Inr a) \<and>
      uint (bytes a) = ?k \<and>
      args_sanity a = (0, []) \<and>
      snd (main w argv) =
        fst (getopt_loop argv args0 (getopt_returns w)) @
        snd (seed_rand w a SEED_FILE) @ evs' \<and>
      fst (main w argv) =
        (if fst (seed_rand w a SEED_FILE) = 0 \<and> RAND_bytes_ok w
         then Exited EXIT_SUCCESS else Exited EXIT_FAILURE)"
    if i: "1 \<le> ?k \<and> ?k \<le> 1024"
  proof -
    from i have s: "args_sanity ?a = (0, [])" and u: "uint (bytes ?a) = ?k"
      using args_sanity_accepts_in_range(1) [of ?k args']
        args_sanity_accepts_in_range(2) [of ?k]
      by simp_all
    from s have s0: "fst (args_sanity ?a) = 0"
      by simp
    from main_after_sanity [OF p s0]
    obtain evs' where t: "snd (main w argv) = evs @ snd (seed_rand w ?a SEED_FILE) @ evs'"
      by blast
    from main_exit_and_output [of w argv] p s0
    have e: "fst (main w argv) =
        (if fst (seed_rand w ?a SEED_FILE) = 0 \<and> RAND_bytes_ok w
         then Exited EXIT_SUCCESS else Exited EXIT_FAILURE)"
      by simp
    from p g s u t e show ?thesis
      by auto
  qed
  have tail: "strtol (ds @ c # rest) = strtol ds"
    if "ds \<noteq> [] \<and> (\<forall>d \<in> set ds. isdigit d) \<and> \<not> isdigit c"
    using that by (simp add: strtol_ignores_tail)
  from low mid tail show ?thesis
    by blast
qed

theorem count_is_what_strtol_reads_witness:
  "(getopt_returns hex_world = [of_char CHR ''x''] \<and>
    length [''rand'', ''-x'', ''2000''] = getopt_optind hex_world + 1 \<and>
    strtol (getopt_argv hex_world [''rand'', ''-x'', ''2000''] ! getopt_optind hex_world) = 2000 \<and>
    (\<exists>fmt. main hex_world [''rand'', ''-x'', ''2000''] =
       (Exited EXIT_FAILURE,
        fst (getopt_loop [''rand'', ''-x'', ''2000''] args0 (getopt_returns hex_world)) @
        [Fprintf_stderr fmt [D 1024]]))) \<and>
   (getopt_returns permuted_world = [of_char CHR ''x''] \<and>
    length [''rand'', ''16'', ''-x''] = getopt_optind permuted_world + 1 \<and>
    strtol (getopt_argv permuted_world [''rand'', ''16'', ''-x''] ! getopt_optind permuted_world) = 16 \<and>
    (\<exists>a evs'.
       args_parse permuted_world [''rand'', ''16'', ''-x''] =
         (fst (getopt_loop [''rand'', ''16'', ''-x''] args0 (getopt_returns permuted_world)),
          Inr a) \<and>
       uint (bytes a) =
         strtol (getopt_argv permuted_world [''rand'', ''16'', ''-x''] !
                 getopt_optind permuted_world) \<and>
       args_sanity a = (0, []) \<and>
       snd (main permuted_world [''rand'', ''16'', ''-x'']) =
         fst (getopt_loop [''rand'', ''16'', ''-x''] args0 (getopt_returns permuted_world)) @
         snd (seed_rand permuted_world a SEED_FILE) @ evs' \<and>
       fst (main permuted_world [''rand'', ''16'', ''-x'']) =
         (if fst (seed_rand permuted_world a SEED_FILE) = 0 \<and> RAND_bytes_ok permuted_world
          then Exited EXIT_SUCCESS else Exited EXIT_FAILURE))) \<and>
   (isdigit CHR ''1'' \<and> isdigit CHR ''2'' \<and> \<not> isdigit CHR ''a'' \<and>
    strtol (''12'' @ CHR ''a'' # ''bc'') = strtol ''12'' \<and> strtol ''12'' = 12)"
proof -
  have g1: "getopt_returns hex_world = [of_char CHR ''x'']"
    by (simp add: hex_world_def)
  then have h1: "\<forall>r \<in> set (getopt_returns hex_world).
      r \<noteq> of_char CHR ''h'' \<and> r \<noteq> of_char CHR ''?''"
    by simp
  have h2: "length [''rand'', ''-x'', ''2000''] = getopt_optind hex_world + 1"
    by (simp add: hex_world_def calm_world_def)
  have v1: "strtol (getopt_argv hex_world [''rand'', ''-x'', ''2000''] !
                    getopt_optind hex_world) = 2000"
    by code_simp
  then have h3: "strtol (getopt_argv hex_world [''rand'', ''-x'', ''2000''] !
                         getopt_optind hex_world) < 1 \<or>
     1024 < strtol (getopt_argv hex_world [''rand'', ''-x'', ''2000''] !
                    getopt_optind hex_world)"
    by simp
  have g2: "getopt_returns permuted_world = [of_char CHR ''x'']"
    by (simp add: permuted_world_def hex_world_def)
  then have p1: "\<forall>r \<in> set (getopt_returns permuted_world).
      r \<noteq> of_char CHR ''h'' \<and> r \<noteq> of_char CHR ''?''"
    by simp
  have p2: "length [''rand'', ''16'', ''-x''] = getopt_optind permuted_world + 1"
    by (simp add: permuted_world_def hex_world_def calm_world_def)
  have v2: "strtol (getopt_argv permuted_world [''rand'', ''16'', ''-x''] !
                    getopt_optind permuted_world) = 16"
    by code_simp
  then have p3: "1 \<le> strtol (getopt_argv permuted_world [''rand'', ''16'', ''-x''] !
                              getopt_optind permuted_world) \<and>
     strtol (getopt_argv permuted_world [''rand'', ''16'', ''-x''] !
             getopt_optind permuted_world) \<le> 1024"
    by simp
  have d: "isdigit CHR ''1''" "isdigit CHR ''2''" "\<not> isdigit CHR ''a''"
    by (simp_all add: isdigit_def)
  then have d3: "''12'' \<noteq> [] \<and> (\<forall>d \<in> set ''12''. isdigit d) \<and> \<not> isdigit CHR ''a''"
    by simp
  have v3: "strtol ''12'' = 12"
    by code_simp
  from count_is_what_strtol_reads [OF h1 h2] h3
  have a: "\<exists>fmt. main hex_world [''rand'', ''-x'', ''2000''] =
       (Exited EXIT_FAILURE,
        fst (getopt_loop [''rand'', ''-x'', ''2000''] args0 (getopt_returns hex_world)) @
        [Fprintf_stderr fmt [D 1024]])"
    by blast
  from count_is_what_strtol_reads [OF p1 p2, where ds = "''12''" and c = "CHR ''a''"
      and rest = "''bc''"] p3 d3
  have b: "(\<exists>a evs'.
       args_parse permuted_world [''rand'', ''16'', ''-x''] =
         (fst (getopt_loop [''rand'', ''16'', ''-x''] args0 (getopt_returns permuted_world)),
          Inr a) \<and>
       uint (bytes a) =
         strtol (getopt_argv permuted_world [''rand'', ''16'', ''-x''] !
                 getopt_optind permuted_world) \<and>
       args_sanity a = (0, []) \<and>
       snd (main permuted_world [''rand'', ''16'', ''-x'']) =
         fst (getopt_loop [''rand'', ''16'', ''-x''] args0 (getopt_returns permuted_world)) @
         snd (seed_rand permuted_world a SEED_FILE) @ evs' \<and>
       fst (main permuted_world [''rand'', ''16'', ''-x'']) =
         (if fst (seed_rand permuted_world a SEED_FILE) = 0 \<and> RAND_bytes_ok permuted_world
          then Exited EXIT_SUCCESS else Exited EXIT_FAILURE)) \<and>
     strtol (''12'' @ CHR ''a'' # ''bc'') = strtol ''12''"
    by blast
  from g1 h2 v1 a g2 p2 v2 b d v3 show ?thesis
    by blast
qed

text \<open>
  Claim C9 as stated fails on three command lines. \<open>rand 12abc\<close>: the argument is not
  a decimal integer, \<open>strtol\<close> reads 12, and the run seeds, draws 12 bytes, writes them
  and exits with \<open>EXIT_SUCCESS\<close>. \<open>rand --help 0\<close> and \<open>rand -5\<close>: the count is below 1,
  \<open>getopt_long\<close> reports \<open>h\<close> and \<open>?\<close>, and the run prints the usage line and exits with
  \<open>EXIT_SUCCESS\<close>.
\<close>

theorem malformed_count_counterexample:
  "(getopt_returns calm_world = [] \<and> getopt_optind calm_world = 1 \<and>
    getopt_argv calm_world [''rand'', ''12abc''] = [''rand'', ''12abc''] \<and>
    main calm_world [''rand'', ''12abc''] =
      (Exited EXIT_SUCCESS,
       [Call_RAND_load_file SEED_FILE 1024, Call_RAND_bytes 12,
        Stdout [5], Stdout [42], Stdout [79], Stdout [116], Stdout [153], Stdout [190],
        Stdout [227], Stdout [8], Stdout [45], Stdout [82], Stdout [119], Stdout [156],
        Closedir, Call_RAND_write_file SEED_FILE])) \<and>
   (getopt_returns (option_world (of_char CHR ''h'')) = [of_char CHR ''h''] \<and>
    main (option_world (of_char CHR ''h'')) [''rand'', ''--help'', ''0''] =
      (Exited EXIT_SUCCESS,
       [Fprintf_stderr ''Usage: %s [--hex|--verbose|--help] bytes\<newline>'' [S ''rand'']])) \<and>
   (getopt_returns (option_world (of_char CHR ''?'')) = [of_char CHR ''?''] \<and>
    main (option_world (of_char CHR ''?'')) [''rand'', ''-5''] =
      (Exited EXIT_SUCCESS,
       [Fprintf_stderr ''Usage: %s [--hex|--verbose|--help] bytes\<newline>'' [S ''rand'']]))"
  by code_simp

end
